theory Spec2Isabelle
  imports Main "HOL-Library.Sublist" "HOL-Library.AList"
begin

section \<open>Python string primitives used by the generator\<close>

text \<open>
  A Python \<open>str\<close> is modelled as a \<open>string\<close>; one \<open>char\<close> stands for one character of
  the Python string. The functions below follow the behaviour of the built-in methods
  the script calls: \<open>in\<close>, \<open>str.count\<close>, \<open>str.replace\<close> with and without a count,
  and \<open>str.split(sep, 1)\<close>. Occurrences are found from left to right and never overlap.
\<close>

text \<open>\<open>find_first sub s\<close> splits \<open>s\<close> around the leftmost occurrence of \<open>sub\<close>:
  the text before it and the text after it; \<open>None\<close> when \<open>sub\<close> does not occur.\<close>

fun find_first :: "string \<Rightarrow> string \<Rightarrow> (string \<times> string) option" where
  "find_first sub [] = (if sub = [] then Some ([], []) else None)"
| "find_first sub (c # cs) =
     (if prefix sub (c # cs) then Some ([], drop (length sub) (c # cs))
      else (case find_first sub cs of
              None \<Rightarrow> None
            | Some (front, rest) \<Rightarrow> Some (c # front, rest)))"

text \<open>\<open>sub in s\<close>\<close>

definition str_contains :: "string \<Rightarrow> string \<Rightarrow> bool" where
  "str_contains sub s = (find_first sub s \<noteq> None)"

text \<open>\<open>s.replace(old, new, 1)\<close>\<close>

definition replace_first :: "string \<Rightarrow> string \<Rightarrow> string \<Rightarrow> string" where
  "replace_first old new s =
     (case find_first old s of
        None \<Rightarrow> s
      | Some (front, rest) \<Rightarrow> front @ new @ rest)"

text \<open>\<open>s.count(sub)\<close>: the number of non-overlapping occurrences, \<open>len(s) + 1\<close> for the
  empty \<open>sub\<close>.\<close>

function str_count :: "string \<Rightarrow> string \<Rightarrow> nat" where
  "str_count sub [] = (if sub = [] then 1 else 0)"
| "str_count sub (c # cs) =
     (if sub = [] then 1 + str_count sub cs
      else if prefix sub (c # cs) then 1 + str_count sub (drop (length sub) (c # cs))
      else str_count sub cs)"
  by pat_completeness auto
termination
  by (relation "measure (\<lambda>(sub, s). length s)") auto

text \<open>\<open>s.replace(old, new)\<close>: every occurrence, left to right.\<close>

function str_replace :: "string \<Rightarrow> string \<Rightarrow> string \<Rightarrow> string" where
  "str_replace old new [] = (if old = [] then new else [])"
| "str_replace old new (c # cs) =
     (if old = [] then new @ c # str_replace old new cs
      else if prefix old (c # cs) then new @ str_replace old new (drop (length old) (c # cs))
      else c # str_replace old new cs)"
  by pat_completeness auto
termination
  by (relation "measure (\<lambda>(old, new, s). length s)") auto

section \<open>ValueReplacer\<close>

definition startBoldHtml :: string where "startBoldHtml = ''<strong>''"
definition endBoldHtml :: string where "endBoldHtml = ''</strong>''"
definition boldNotation :: string where "boldNotation = ''**''"

definition startOblique :: string where
  "startOblique = ''<span class='' @ [CHR 0x22] @ ''_pale _oblique'' @ [CHR 0x22] @ ''>''"
definition endOblique :: string where "endOblique = ''</span>''"
definition obliqueNotation :: string where "obliqueNotation = ''__''"

definition startGreen :: string where
  "startGreen = ''<span style='' @ [CHR 0x22] @ ''color: green;'' @ [CHR 0x22] @ ''>''"
definition endGreen :: string where "endGreen = ''</span>''"
definition greenNotation :: string where "greenNotation = ''_green_''"

definition startRed :: string where
  "startRed = ''<span style='' @ [CHR 0x22] @ ''color: red;'' @ [CHR 0x22] @ ''>''"
definition endRed :: string where "endRed = ''</span>''"
definition redNotation :: string where "redNotation = ''_red_''"

text \<open>
  The \<open>while\<close> loop of \<open>replaceStartEnd\<close>: as long as the notation occurs, its leftmost
  occurrence is replaced, by the start tag on even rounds and the end tag on odd ones.
  Nothing in the source bounds the loop (a replacement that contains the notation makes
  it run forever), so not returning is the value \<open>None\<close>.
\<close>

partial_function (option) replace_loop ::
  "string \<Rightarrow> string \<Rightarrow> string \<Rightarrow> nat \<Rightarrow> string \<Rightarrow> string option" where
  "replace_loop notation startReplaced endReplaced replacedCount replacedStr =
     (if str_contains notation replacedStr
      then replace_loop notation startReplaced endReplaced (replacedCount + 1)
             (replace_first notation
                (if replacedCount mod 2 = 0 then startReplaced else endReplaced) replacedStr)
      else Some replacedStr)"

declare replace_loop.simps [code]

definition replaceStartEnd :: "string \<Rightarrow> string \<Rightarrow> string \<Rightarrow> string \<Rightarrow> string option" where
  "replaceStartEnd str notation startReplaced endReplaced =
     (if str_contains notation str \<and> str_count notation str mod 2 = 0
      then replace_loop notation startReplaced endReplaced 0 str
      else Some str)"

text \<open>\<open>ValueReplacer.replace\<close>: newlines first, then bold, oblique, green and red, each on
  the output of the step before.\<close>

definition replace :: "string \<Rightarrow> string option" where
  "replace str =
     Option.bind (Some (str_replace [CHR 0x0A] ''<br />'' str)) (\<lambda>s0.
     Option.bind (replaceStartEnd s0 boldNotation startBoldHtml endBoldHtml) (\<lambda>s1.
     Option.bind (replaceStartEnd s1 obliqueNotation startOblique endOblique) (\<lambda>s2.
     Option.bind (replaceStartEnd s2 greenNotation startGreen endGreen) (\<lambda>s3.
     replaceStartEnd s3 redNotation startRed endRed))))"

text \<open>
  What the specification asks of one notation: reading the string from left to right,
  every occurrence of the token is replaced, the first by the opening tag, the second by
  the closing tag, the third by the opening tag again, and so on. \<open>k\<close> counts the
  occurrences already replaced.
\<close>

function alternate :: "string \<Rightarrow> string \<Rightarrow> string \<Rightarrow> nat \<Rightarrow> string \<Rightarrow> string" where
  "alternate tok opening closing k [] = []"
| "alternate tok opening closing k (c # cs) =
     (if tok \<noteq> [] \<and> prefix tok (c # cs)
      then (if even k then opening else closing)
             @ alternate tok opening closing (Suc k) (drop (length tok) (c # cs))
      else c # alternate tok opening closing k cs)"
  by pat_completeness auto
termination
  by (relation "measure (\<lambda>(tok, opening, closing, k, s). length s)") auto

section \<open>Values, errors and the world outside the program\<close>

text \<open>
  A spreadsheet cell read with \<open>data_only=True\<close>, and likewise a key of a YAML mapping:
  \<open>None\<close>, a \<open>str\<close>, or a value of another type, of which integers stand for all.
\<close>

datatype cell = CNone | CStr string | CInt int

text \<open>
  A scalar of a YAML document as \<open>ruamel.yaml\<close> hands it over: a plain \<open>str\<close>, a
  \<open>FoldedScalarString\<close> (a \<open>str\<close> that is written as a folded block), or a scalar that
  is not a string (a number, a boolean, null). Values that are lists or nested mappings
  are outside the model.
\<close>

datatype yvalue = Plain string | Folded string | NonString

fun text_of :: "yvalue \<Rightarrow> string" where
  "text_of (Plain s) = s"
| "text_of (Folded s) = s"
| "text_of NonString = []"

text \<open>The exceptions the script can meet. \<open>LoadError f\<close> is the
  \<open>Exception("Error loading translation yaml file " + f)\<close> of the store's loader,
  \<open>NotEnoughRows\<close> the \<open>Exception("Not enough rows in the Labels sheet")\<close>.\<close>

datatype error =
    AttributeError
  | TypeError
  | KeyError
  | IndexError
  | FileNotFoundError string
  | YamlError
  | LoadError string
  | NotEnoughRows
  | InvalidSheet
  | MissingHeader
  | WorkbookError

text \<open>How a call ends: it returns a value, it raises, or it never returns.\<close>

datatype 'a result = Ok 'a | Raised error | Diverges

text \<open>The lines the script prints, one constructor for each \<open>print\<close> of the source.\<close>

datatype message =
    ErrorLoadingYaml error
  | GenerateSuccessfully string
  | ExceptionOccurredFor string cell cell error
  | ExceptionInGetLocalesSheet error
  | ExceptionInAddTranslationsFromLocale error
  | ExceptionInAddTranslationsFromExcel error
  | AnErrorOccurred error

text \<open>
  A file on disk: the text written with \<open>file.write\<close> before the document (for a file
  written by hand, its leading comment), and the YAML document, which \<open>yaml.load\<close>
  either reads as a mapping of scalars, in the order of the file, or fails to read.
\<close>

datatype document = Mapping "(cell \<times> yvalue) list" | Unreadable

record file_content =
  leading_text :: string
  document :: document

text \<open>
  The file system holds the directories that exist and the files, both under the path
  strings the script uses for them; two spellings of one path are two paths. The world
  is the file system and what has been printed.
\<close>

record filesystem =
  dirs :: "string list"
  files :: "(string \<times> file_content) list"

record world =
  disk :: filesystem
  stdout :: "message list"

definition print :: "message \<Rightarrow> world \<Rightarrow> world" where
  "print m w = w\<lparr>stdout := stdout w @ [m]\<rparr>"

subsection \<open>\<open>os.path\<close> and \<open>glob\<close> on POSIX\<close>

definition is_sep :: "char \<Rightarrow> bool" where
  "is_sep c = (c = CHR ''/'')"

text \<open>\<open>os.path.join(a, b)\<close>\<close>

definition path_join :: "string \<Rightarrow> string \<Rightarrow> string" where
  "path_join a b =
     (if prefix ''/'' b then b
      else if a = [] \<or> suffix ''/'' a then a @ b
      else a @ ''/'' @ b)"

text \<open>\<open>os.path.dirname\<close> and \<open>os.path.basename\<close>: the path is cut after its last
  separator; the head loses its trailing separators unless it consists of them.\<close>

definition dirname :: "string \<Rightarrow> string" where
  "dirname p =
     (let head = rev (dropWhile (\<lambda>c. \<not> is_sep c) (rev p))
      in if list_all is_sep head then head else rev (dropWhile is_sep (rev head)))"

definition basename :: "string \<Rightarrow> string" where
  "basename p = rev (takeWhile (\<lambda>c. \<not> is_sep c) (rev p))"

text \<open>\<open>os.path.splitext(name)[0]\<close> for a name without separator: the name is cut at its
  last dot, unless only dots stand before that dot.\<close>

definition splitext_root :: "string \<Rightarrow> string" where
  "splitext_root name =
     (let ext = rev (takeWhile (\<lambda>c. c \<noteq> CHR ''.'') (rev name));
          stem = take (length name - length ext - 1) name
      in if CHR ''.'' \<in> set name \<and> \<not> list_all (\<lambda>c. c = CHR ''.'') stem then stem else name)"

text \<open>
  \<open>glob(escape(root) + "/**/*.yml")\<close>. Without \<open>recursive=True\<close> the pattern \<open>**\<close> is
  the pattern \<open>*\<close>, so a path matches when it is \<open>root/d/f\<close> for a directory name
  \<open>d\<close> and a file name \<open>f\<close> ending in \<open>.yml\<close>; a \<open>*\<close> matches no separator and
  no name that starts with a dot. The model reads the prefix as \<open>root\<close> followed by one
  separator, which is what \<open>glob\<close> returns for a root that does not end in a separator.
\<close>

definition visible_name :: "string \<Rightarrow> bool" where
  "visible_name n = (n \<noteq> [] \<and> \<not> prefix ''.'' n \<and> \<not> list_ex is_sep n)"

definition glob_match :: "string \<Rightarrow> string \<Rightarrow> bool" where
  "glob_match root p =
     (prefix (root @ ''/'') p \<and>
      (let rest = drop (length root + 1) p;
           d = takeWhile (\<lambda>c. \<not> is_sep c) rest;
           f = drop (length d + 1) rest
       in length d < length rest \<and> visible_name d \<and> visible_name f \<and> suffix ''.yml'' f))"

definition glob_yml :: "string \<Rightarrow> filesystem \<Rightarrow> string list" where
  "glob_yml root fs = filter (glob_match root) (map fst (files fs))"

text \<open>\<open>open(path, "w")\<close> creates or truncates the file when the directory of the path
  exists (the empty directory name is the current directory) and raises
  \<open>FileNotFoundError\<close> otherwise. Permissions and full disks are outside the model.\<close>

definition can_open_for_writing :: "filesystem \<Rightarrow> string \<Rightarrow> bool" where
  "can_open_for_writing fs path = (dirname path = [] \<or> dirname path \<in> set (dirs fs))"

definition write_file :: "string \<Rightarrow> file_content \<Rightarrow> filesystem \<Rightarrow> filesystem" where
  "write_file path c fs = fs\<lparr>files := AList.update path c (files fs)\<rparr>"

section \<open>TranslationLangNs: one language and section\<close>

text \<open>The object's fields: the dirty bit, the mapping (a Python \<open>dict\<close>, which keeps the
  order of insertion) and the path of its file (\<open>self.file\<close>, here \<open>ns_file\<close>). The two tag fields set by the
  constructor are never read and are left out.\<close>

record TranslationLangNs =
  modified :: bool
  data :: "(cell \<times> yvalue) list"
  ns_file :: string

definition TranslationLangNs_init :: "string \<Rightarrow> TranslationLangNs" where
  "TranslationLangNs_init excel_file_path =
     \<lparr>modified = False, data = [], ns_file = excel_file_path\<rparr>"

text \<open>\<open>stringToYaml\<close>: \<open>"\n" in str\<close> raises \<open>TypeError\<close> when \<open>str\<close> is a number,
  a boolean or \<open>None\<close>.\<close>

fun stringToYaml :: "yvalue \<Rightarrow> yvalue result" where
  "stringToYaml NonString = Raised TypeError"
| "stringToYaml v =
     (if CHR 0x0A \<in> set (text_of v) then Ok (Folded (text_of v))
      else if length (text_of v) > 76 then Ok (Folded (text_of v))
      else Ok v)"

text \<open>The loop of \<open>loadCurrentTranslations\<close> over the loaded mapping.\<close>

fun load_items :: "(cell \<times> yvalue) list \<Rightarrow> (cell \<times> yvalue) list \<Rightarrow> (cell \<times> yvalue) list result" where
  "load_items [] d = Ok d"
| "load_items ((path, v) # rest) d =
     (case stringToYaml v of
        Ok y \<Rightarrow> load_items rest (AList.update path y d)
      | Raised e \<Rightarrow> Raised e
      | Diverges \<Rightarrow> Diverges)"

text \<open>\<open>TranslationLangNs.loadCurrentTranslations\<close>. \<open>open\<close> stands outside the \<open>try\<close>;
  every exception inside it is printed and replaced by the loader's own. The object is
  dropped by the caller when the load raises, so only a successful load returns one.\<close>

definition ns_loadCurrentTranslations ::
  "TranslationLangNs \<Rightarrow> world \<Rightarrow> TranslationLangNs result \<times> world" where
  "ns_loadCurrentTranslations self w =
     (case map_of (files (disk w)) (ns_file self) of
        None \<Rightarrow> (Raised (FileNotFoundError (ns_file self)), w)
      | Some c \<Rightarrow>
          (case document c of
             Unreadable \<Rightarrow> (Raised (LoadError (ns_file self)), print (ErrorLoadingYaml YamlError) w)
           | Mapping translationData \<Rightarrow>
               (case load_items translationData [] of
                  Ok d \<Rightarrow> (Ok (self\<lparr>data := d\<rparr>), w)
                | Raised e \<Rightarrow> (Raised (LoadError (ns_file self)), print (ErrorLoadingYaml e) w)
                | Diverges \<Rightarrow> (Diverges, w))))"

text \<open>The three comment lines \<open>save\<close> writes before the document, the last followed by
  an empty line.\<close>

definition header :: string where
  "header =
     ''# This file was automatically generated by the Evolution Generator.'' @ [CHR 0x0A] @
     ''# The Evolution Generator is used to automate the creation of consistent, reliable code.''
       @ [CHR 0x0A] @
     ''# Any changes made to this file will be overwritten.'' @ [CHR 0x0A, CHR 0x0A]"

definition slashes :: "string \<Rightarrow> string" where
  "slashes p = map (\<lambda>c. if c = CHR 0x5C then CHR ''/'' else c) p"

text \<open>\<open>TranslationLangNs.save\<close>\<close>

definition ns_save :: "TranslationLangNs \<Rightarrow> world \<Rightarrow> unit result \<times> world" where
  "ns_save self w =
     (if modified self then
        (if can_open_for_writing (disk w) (ns_file self)
         then (Ok (),
               print (GenerateSuccessfully (slashes (ns_file self)))
                 (w\<lparr>disk := write_file (ns_file self)
                     \<lparr>leading_text = header, document = Mapping (data self)\<rparr> (disk w)\<rparr>))
         else (Raised (FileNotFoundError (ns_file self)), w))
      else (Ok (), w))"

text \<open>\<open>TranslationLangNs.addTranslation\<close>. \<open>value.replace\<close> raises \<open>AttributeError\<close>
  when the value is not a string.\<close>

definition ns_addTranslation ::
  "cell \<Rightarrow> cell \<Rightarrow> bool \<Rightarrow> bool \<Rightarrow> TranslationLangNs \<Rightarrow> TranslationLangNs result" where
  "ns_addTranslation path val overwrite keepMarkdown self =
     (if \<not> overwrite \<and> map_of (data self) path \<noteq> None then Ok self
      else
        (case val of
           CStr v \<Rightarrow>
             (let v1 = str_replace ''[nom]'' ''{{nickname}}'' v
              in case (if \<not> keepMarkdown then replace v1 else Some v1) of
                   None \<Rightarrow> Diverges
                 | Some v2 \<Rightarrow>
                     (case stringToYaml (Plain v2) of
                        Ok y \<Rightarrow> Ok (self\<lparr>data := AList.update path y (data self), modified := True\<rparr>)
                      | Raised e \<Rightarrow> Raised e
                      | Diverges \<Rightarrow> Diverges))
         | _ \<Rightarrow> Raised AttributeError))"

text \<open>
  Two shapes recur in the script: a statement runs only when the one before it returned,
  and an \<open>except\<close> clause prints the exception and raises it again.
\<close>

definition and_then ::
  "unit result \<times> 's \<times> world \<Rightarrow> ('s \<Rightarrow> world \<Rightarrow> unit result \<times> 's \<times> world) \<Rightarrow>
   unit result \<times> 's \<times> world" where
  "and_then r f = (case r of (Ok u, s, w) \<Rightarrow> f s w | (Raised e, s, w) \<Rightarrow> r | (Diverges, s, w) \<Rightarrow> r)"

definition print_and_reraise ::
  "(error \<Rightarrow> message) \<Rightarrow> unit result \<times> 's \<times> world \<Rightarrow> unit result \<times> 's \<times> world" where
  "print_and_reraise msg r =
     (case r of (Raised e, s, w) \<Rightarrow> (Raised e, s, print (msg e) w) | (Ok u, s, w) \<Rightarrow> r | (Diverges, s, w) \<Rightarrow> r)"

section \<open>TranslationData: all languages and sections\<close>

text \<open>\<open>td_translations\<close> (\<open>self.translations\<close>) is a \<open>dict\<close> of \<open>dict\<close>s, language first, then section. The keys
  of the inner dictionaries are strings: the loader inserts file names, and
  \<open>addTranslation\<close> inserts a section only after \<open>section + ".yml"\<close> was computed.\<close>

record TranslationData =
  td_translations :: "(string \<times> (string \<times> TranslationLangNs) list) list"
  libelles_output_folder_path :: string

definition TranslationData_init :: "string \<Rightarrow> TranslationData" where
  "TranslationData_init folder = \<lparr>td_translations = [], libelles_output_folder_path = folder\<rparr>"

text \<open>\<open>self.translations[lang]\<close> once \<open>lang\<close> has been given the empty \<open>dict\<close> if it had
  none.\<close>

definition lang_dict ::
  "(string \<times> (string \<times> TranslationLangNs) list) list \<Rightarrow> string \<Rightarrow> (string \<times> TranslationLangNs) list" where
  "lang_dict t lang = (case map_of t lang of None \<Rightarrow> [] | Some d \<Rightarrow> d)"

definition td_addTranslations ::
  "string \<Rightarrow> string \<Rightarrow> TranslationLangNs \<Rightarrow> TranslationData \<Rightarrow> TranslationData" where
  "td_addTranslations lang sect ns self =
     self\<lparr>td_translations :=
       AList.update lang (AList.update sect ns (lang_dict (td_translations self) lang))
         (td_translations self)\<rparr>"

fun save_each :: "TranslationLangNs list \<Rightarrow> world \<Rightarrow> unit result \<times> world" where
  "save_each [] w = (Ok (), w)"
| "save_each (ns # rest) w =
     (case ns_save ns w of
        (Ok u, w') \<Rightarrow> save_each rest w'
      | (Raised e, w') \<Rightarrow> (Raised e, w')
      | (Diverges, w') \<Rightarrow> (Diverges, w'))"

text \<open>\<open>TranslationData.save\<close>: the languages in order, the sections of each in order.\<close>

definition td_save :: "TranslationData \<Rightarrow> world \<Rightarrow> unit result \<times> world" where
  "td_save self w = save_each (concat (map (map snd) (map snd (td_translations self)))) w"

text \<open>
  \<open>TranslationData.addTranslation\<close>. A section that is not a string is in no inner
  dictionary, so \<open>section + ".yml"\<close> is evaluated and raises \<open>TypeError\<close>, after the
  language has got its dictionary. The store created for a new section stays in the
  registry when the store's own \<open>addTranslation\<close> raises.
\<close>

definition td_addTranslation ::
  "string \<Rightarrow> cell \<Rightarrow> cell \<Rightarrow> cell \<Rightarrow> bool \<Rightarrow> bool \<Rightarrow> TranslationData \<Rightarrow> world \<Rightarrow>
   unit result \<times> TranslationData \<times> world" where
  "td_addTranslation lang sect path val overwrite keepMarkdown self w =
     print_and_reraise (ExceptionOccurredFor lang sect path)
       (let t1 = (if map_of (td_translations self) lang = None
                  then AList.update lang [] (td_translations self) else td_translations self);
            d1 = lang_dict t1 lang
        in case sect of
             CStr s \<Rightarrow>
               (let ns = (case map_of d1 s of
                            None \<Rightarrow> TranslationLangNs_init
                                      (path_join (path_join (libelles_output_folder_path self) lang)
                                         (s @ ''.yml''))
                          | Some ns \<Rightarrow> ns)
                in case ns_addTranslation path val overwrite keepMarkdown ns of
                     Ok ns' \<Rightarrow>
                       (Ok (), self\<lparr>td_translations := AList.update lang (AList.update s ns' d1) t1\<rparr>, w)
                   | Raised e \<Rightarrow>
                       (Raised e, self\<lparr>td_translations := AList.update lang (AList.update s ns d1) t1\<rparr>, w)
                   | Diverges \<Rightarrow>
                       (Diverges, self\<lparr>td_translations := AList.update lang (AList.update s ns d1) t1\<rparr>, w))
           | _ \<Rightarrow> (Raised TypeError, self\<lparr>td_translations := t1\<rparr>, w))"

section \<open>FillLocalesTranslations: the extraction\<close>

text \<open>
  A workbook is its sheets by name; a sheet is its rows, the header row first, and a row
  is its cell values. \<open>excel_file_path\<close> stands for what \<open>openpyxl.load_workbook\<close>
  finds at the path: a workbook, or nothing it can open.
\<close>

type_synonym sheet = "cell list list"
type_synonym workbook = "(string \<times> sheet) list"

record FillLocalesTranslations =
  excel_file_path :: "workbook option"
  output_folder_path :: string
  overwrite :: bool
  section_filter :: "string option"
  allTranslations :: TranslationData

definition FillLocalesTranslations_init ::
  "workbook option \<Rightarrow> string \<Rightarrow> bool \<Rightarrow> string option \<Rightarrow> FillLocalesTranslations" where
  "FillLocalesTranslations_init excel folder ow sect =
     \<lparr>excel_file_path = excel, output_folder_path = folder, overwrite = ow,
      section_filter = sect, allTranslations = TranslationData_init folder\<rparr>"

text \<open>
  The loop of \<open>loadCurrentTranslations\<close> over the files \<open>glob\<close> found. The language is
  the last component of the normalised directory of the file, which for a path that
  \<open>glob\<close> matched is the name of that directory; the section is the file name without
  its extension. An exception of the store's loader is not caught here.
\<close>

fun load_files ::
  "string list \<Rightarrow> TranslationData \<Rightarrow> world \<Rightarrow> unit result \<times> TranslationData \<times> world" where
  "load_files [] td w = (Ok (), td, w)"
| "load_files (translationFile # rest) td w =
     (let lang = basename (dirname translationFile);
          sect = splitext_root (basename translationFile)
      in case ns_loadCurrentTranslations (TranslationLangNs_init translationFile) w of
           (Ok translationNs, w') \<Rightarrow> load_files rest (td_addTranslations lang sect translationNs td) w'
         | (Raised e, w') \<Rightarrow> (Raised e, td, w')
         | (Diverges, w') \<Rightarrow> (Diverges, td, w'))"

definition loadCurrentTranslations ::
  "FillLocalesTranslations \<Rightarrow> world \<Rightarrow> unit result \<times> FillLocalesTranslations \<times> world" where
  "loadCurrentTranslations self w =
     (case load_files (glob_yml (output_folder_path self) (disk w)) (allTranslations self) w of
        (r, td, w') \<Rightarrow> (r, self\<lparr>allTranslations := td\<rparr>, w'))"

definition saveAllTranslations ::
  "FillLocalesTranslations \<Rightarrow> world \<Rightarrow> unit result \<times> FillLocalesTranslations \<times> world" where
  "saveAllTranslations self w =
     (case td_save (allTranslations self) w of (r, w') \<Rightarrow> (r, self, w'))"

text \<open>
  Modelled from the spec: \<open>sheet_exists\<close> and \<open>get_headers\<close> are helpers of the
  repository (\<open>helpers.generator_helpers\<close>) whose code is not among the sources. The
  Labels sheet is "header-driven" and "must include a \<open>key\<close> column": \<open>sheet_exists\<close>
  raises when the workbook has no sheet of the name, \<open>get_headers\<close> returns the values
  of the first row and raises when an expected header is not among them.
\<close>

definition sheet_exists :: "workbook \<Rightarrow> string \<Rightarrow> unit result" where
  "sheet_exists wb name = (case map_of wb name of None \<Rightarrow> Raised InvalidSheet | Some sh \<Rightarrow> Ok ())"

definition get_headers :: "sheet \<Rightarrow> cell list \<Rightarrow> cell list result" where
  "get_headers sh expected_headers =
     (case sh of
        [] \<Rightarrow> Raised MissingHeader
      | first_row # rest \<Rightarrow>
          if list_all (\<lambda>h. h \<in> set first_row) expected_headers then Ok first_row
          else Raised MissingHeader)"

text \<open>\<open>dict(zip(headers, values))\<close>: a later pair with the same key replaces the value and
  keeps the place of the first.\<close>

definition dict_of :: "('k \<times> 'v) list \<Rightarrow> ('k \<times> 'v) list" where
  "dict_of pairs = foldl (\<lambda>d (k, v). AList.update k v d) [] pairs"

text \<open>The loop of \<open>__getTranslationsFromLocaleSheet\<close> over the rows below the header;
  \<open>current_locale['key']\<close> raises \<open>KeyError\<close> when the row has no cell under \<open>key\<close>.\<close>

fun locale_rows ::
  "cell list \<Rightarrow> sheet \<Rightarrow> (cell \<times> (cell \<times> cell) list) list \<Rightarrow> (cell \<times> (cell \<times> cell) list) list result" where
  "locale_rows headers [] locales_dictionary = Ok locales_dictionary"
| "locale_rows headers (row # rest) locales_dictionary =
     (let current_locale = dict_of (zip headers row)
      in case map_of current_locale (CStr ''key'') of
           None \<Rightarrow> Raised KeyError
         | Some k \<Rightarrow> locale_rows headers rest (AList.update k current_locale locales_dictionary))"

text \<open>The body of the \<open>try\<close> of \<open>__getTranslationsFromLocaleSheet\<close>.\<close>

definition locale_sheet :: "workbook option \<Rightarrow> (cell \<times> (cell \<times> cell) list) list result" where
  "locale_sheet excel =
     (case excel of
        None \<Rightarrow> Raised WorkbookError
      | Some wb \<Rightarrow>
          (case sheet_exists wb ''Labels'' of
             Raised e \<Rightarrow> Raised e
           | Diverges \<Rightarrow> Diverges
           | Ok u \<Rightarrow>
               (case map_of wb ''Labels'' of
                  None \<Rightarrow> Raised KeyError
                | Some sh \<Rightarrow>
                    if length sh \<le> 1 then Raised NotEnoughRows
                    else (case get_headers sh [CStr ''key''] of
                            Raised e \<Rightarrow> Raised e
                          | Diverges \<Rightarrow> Diverges
                          | Ok headers \<Rightarrow> locale_rows headers (drop 1 sh) []))))"

text \<open>\<open>__getTranslationsFromLocaleSheet\<close>: every exception is printed and answered with
  the empty dictionary.\<close>

definition getTranslationsFromLocaleSheet ::
  "FillLocalesTranslations \<Rightarrow> world \<Rightarrow> (cell \<times> (cell \<times> cell) list) list result \<times> world" where
  "getTranslationsFromLocaleSheet self w =
     (case locale_sheet (excel_file_path self) of
        Ok locales_dictionary \<Rightarrow> (Ok locales_dictionary, w)
      | Raised e \<Rightarrow> (Ok [], print (ExceptionInGetLocalesSheet e) w)
      | Diverges \<Rightarrow> (Diverges, w))"

text \<open>\<open>key.split('_', 1)\<close>: the text before the first underscore, and the text after it
  when there is an underscore.\<close>

definition split_once :: "string \<Rightarrow> string \<times> string option" where
  "split_once k =
     (let front = takeWhile (\<lambda>c. c \<noteq> CHR ''_'') k
      in (front, if CHR ''_'' \<in> set k then Some (drop (length front + 1) k) else None))"

text \<open>
  What the body of the loop of \<open>__addTranslationsFromLocales\<close> decides for one column
  before it calls the registry: \<open>Ok None\<close> when the column is passed over
  (\<open>continue\<close>), \<open>Ok (Some (lang, translationKey))\<close> when it is to be added. \<open>key.split\<close>
  raises \<open>AttributeError\<close> for a header that is not a string, and
  \<open>translationKey += '_' + lngContext[1]\<close> raises \<open>TypeError\<close> for a question name that
  is not one.
\<close>

definition column_translation :: "cell \<Rightarrow> cell \<Rightarrow> cell \<Rightarrow> (string \<times> cell) option result" where
  "column_translation question_name key val =
     (if key = CStr ''namespace'' \<or> key = CStr ''key'' \<or> key = CStr ''md'' then Ok None
      else if val = CStr [] \<or> val = CNone then Ok None
      else
        (case key of
           CStr k \<Rightarrow>
             (let lngContext = split_once k
              in if length (fst lngContext) > 2 then Ok None
                 else
                   (case snd lngContext of
                      None \<Rightarrow> Ok (Some (fst lngContext, question_name))
                    | Some rest \<Rightarrow>
                        (case question_name of
                           CStr q \<Rightarrow> Ok (Some (fst lngContext, CStr (q @ ''_'' @ rest)))
                         | _ \<Rightarrow> Raised TypeError)))
         | _ \<Rightarrow> Raised AttributeError))"

fun locale_columns ::
  "cell \<Rightarrow> cell \<Rightarrow> bool \<Rightarrow> bool \<Rightarrow> (cell \<times> cell) list \<Rightarrow> TranslationData \<Rightarrow> world \<Rightarrow>
   unit result \<times> TranslationData \<times> world" where
  "locale_columns sect question_name ow keepMarkdown [] td w = (Ok (), td, w)"
| "locale_columns sect question_name ow keepMarkdown ((key, val) # rest) td w =
     (case column_translation question_name key val of
        Ok None \<Rightarrow> locale_columns sect question_name ow keepMarkdown rest td w
      | Ok (Some (lang, translationKey)) \<Rightarrow>
          and_then (td_addTranslation lang sect translationKey val ow keepMarkdown td w)
            (locale_columns sect question_name ow keepMarkdown rest)
      | Raised e \<Rightarrow> (Raised e, td, w)
      | Diverges \<Rightarrow> (Diverges, td, w))"

text \<open>\<open>__addTranslationsFromLocales\<close>: \<open>keepMarkdown\<close> is set when the row has the string
  \<open>'1'\<close> under \<open>md\<close>. The \<open>except\<close> clause prints the exception and returns.\<close>

definition addTranslationsFromLocales ::
  "cell \<Rightarrow> cell \<Rightarrow> (cell \<times> cell) list \<Rightarrow> FillLocalesTranslations \<Rightarrow> world \<Rightarrow>
   unit result \<times> FillLocalesTranslations \<times> world" where
  "addTranslationsFromLocales sect question_name row self w =
     (let keepMarkdown = (map_of row (CStr ''md'') = Some (CStr ''1''))
      in case locale_columns sect question_name (overwrite self) keepMarkdown row
                (allTranslations self) w of
           (Ok u, td, w') \<Rightarrow> (Ok (), self\<lparr>allTranslations := td\<rparr>, w')
         | (Raised e, td, w') \<Rightarrow>
             (Ok (), self\<lparr>allTranslations := td\<rparr>, print (ExceptionInAddTranslationsFromLocale e) w')
         | (Diverges, td, w') \<Rightarrow> (Diverges, self\<lparr>allTranslations := td\<rparr>, w'))"

text \<open>One call of the registry from the default strategy, made when the value is not
  \<open>None\<close>, with \<open>keepMarkdown = False\<close>.\<close>

definition add_default ::
  "string \<Rightarrow> cell \<Rightarrow> cell \<Rightarrow> cell \<Rightarrow> FillLocalesTranslations \<Rightarrow> world \<Rightarrow>
   unit result \<times> FillLocalesTranslations \<times> world" where
  "add_default lang sect path val self w =
     (if val = CNone then (Ok (), self, w)
      else case td_addTranslation lang sect path val (overwrite self) False (allTranslations self) w of
             (r, td, w') \<Rightarrow> (r, self\<lparr>allTranslations := td\<rparr>, w'))"

text \<open>The loop of \<open>addTranslationsFromExcel\<close> over the rows of the Widgets sheet below
  the header. Reading \<open>row[7]\<close> raises \<open>IndexError\<close> when the row has fewer than eight
  cells; nothing has been done for the row by then.\<close>

fun widget_rows ::
  "(cell \<times> (cell \<times> cell) list) list \<Rightarrow> sheet \<Rightarrow> FillLocalesTranslations \<Rightarrow> world \<Rightarrow>
   unit result \<times> FillLocalesTranslations \<times> world" where
  "widget_rows locales_dictionary [] self w = (Ok (), self, w)"
| "widget_rows locales_dictionary (row # rest) self w =
     (if length row < 8 then (Raised IndexError, self, w)
      else
        (let question_name = row ! 0; sect = row ! 3; path = row ! 5;
             fr = row ! 6; en = row ! 7
         in and_then
              (case map_of locales_dictionary question_name of
                 Some locale_row \<Rightarrow> addTranslationsFromLocales sect question_name locale_row self w
               | None \<Rightarrow>
                   and_then (add_default ''fr'' sect path fr self w) (add_default ''en'' sect path en))
              (widget_rows locales_dictionary rest)))"

text \<open>\<open>addTranslationsFromExcel\<close>\<close>

definition addTranslationsFromExcel ::
  "FillLocalesTranslations \<Rightarrow> world \<Rightarrow> unit result \<times> FillLocalesTranslations \<times> world" where
  "addTranslationsFromExcel self w =
     print_and_reraise ExceptionInAddTranslationsFromExcel
       (case excel_file_path self of
          None \<Rightarrow> (Raised WorkbookError, self, w)
        | Some wb \<Rightarrow>
            (case map_of wb ''Widgets'' of
               None \<Rightarrow> (Raised KeyError, self, w)
             | Some sh \<Rightarrow>
                 (case getTranslationsFromLocaleSheet self w of
                    (Ok locales_dictionary, w') \<Rightarrow> widget_rows locales_dictionary (drop 1 sh) self w'
                  | (Raised e, w') \<Rightarrow> (Raised e, self, w')
                  | (Diverges, w') \<Rightarrow> (Diverges, self, w'))))"

section \<open>The entry point\<close>

text \<open>\<open>generate_libelles\<close>. The task object is local to the function; the model returns
  it beside the outcome so that the stores of a run can be spoken about.\<close>

definition generate_libelles ::
  "workbook option \<Rightarrow> string \<Rightarrow> bool \<Rightarrow> string option \<Rightarrow> world \<Rightarrow>
   unit result \<times> FillLocalesTranslations \<times> world" where
  "generate_libelles excel folder ow sect w =
     print_and_reraise AnErrorOccurred
       (and_then
          (and_then
             (loadCurrentTranslations (FillLocalesTranslations_init excel folder ow sect) w)
             addTranslationsFromExcel)
          saveAllTranslations)"

section \<open>The notation transformer replaces balanced notations alternately\<close>

text \<open>
  \<open>nomatch sub u v\<close>: no occurrence of \<open>sub\<close> in \<open>u @ v\<close> starts inside \<open>u\<close>. This is
  what the loop of \<open>replaceStartEnd\<close> keeps true of the part of the string it has already
  rewritten. \<open>tag_ok sub t\<close>: putting the tag \<open>t\<close> into a string cannot make a new
  occurrence of \<open>sub\<close>, because \<open>sub\<close> does not occur in \<open>t\<close> and contains neither the
  first nor the last character of \<open>t\<close>.
\<close>

fun nomatch :: "string \<Rightarrow> string \<Rightarrow> string \<Rightarrow> bool" where
  "nomatch sub [] v = True"
| "nomatch sub (c # u) v = (\<not> prefix sub (c # u @ v) \<and> nomatch sub u v)"

definition tag_ok :: "string \<Rightarrow> string \<Rightarrow> bool" where
  "tag_ok sub t = (sub \<noteq> [] \<and> t \<noteq> [] \<and> hd t \<notin> set sub \<and> last t \<notin> set sub \<and> \<not> str_contains sub t)"

lemma find_first_nomatch:
  "nomatch sub u v \<Longrightarrow>
   find_first sub (u @ v) = map_option (\<lambda>(a, b). (u @ a, b)) (find_first sub v)"
  by (induction u) (auto split: option.splits simp: option.map_id)

lemma alternate_nomatch:
  "nomatch sub u v \<Longrightarrow> alternate sub p q k (u @ v) = u @ alternate sub p q k v"
  by (induction u) auto

lemma nomatch_append: "nomatch sub (u @ t) v = (nomatch sub u (t @ v) \<and> nomatch sub t v)"
  by (induction u) auto

lemma prefix_crossing:
  assumes "prefix sub (a @ b)" "\<not> prefix sub a"
  shows "\<exists>x. sub = a @ x \<and> x \<noteq> [] \<and> prefix x b"
  using assms by (metis prefix_append append_Nil2 prefix_order.order_refl)

lemma nomatch_swap_tail:
  assumes "t \<noteq> []" "hd t \<notin> set sub"
  shows "nomatch sub u (sub @ r) \<Longrightarrow> nomatch sub u (t @ r)"
proof (induction u)
  case Nil
  then show ?case by simp
next
  case (Cons c u)
  have "\<not> prefix sub (c # u @ t @ r)"
  proof
    assume p: "prefix sub (c # u @ t @ r)"
    from Cons.prems have np: "\<not> prefix sub ((c # u) @ sub @ r)" by simp
    then have "\<not> prefix sub (c # u)" by (metis prefix_prefix)
    with p obtain x where x: "sub = (c # u) @ x" "x \<noteq> []" "prefix x (t @ r)"
      using prefix_crossing[of sub "c # u" "t @ r"] by auto
    then have "hd x = hd t" using assms(1) by (cases x; cases t) auto
    with x have "hd t \<in> set sub" by (cases x) auto
    with assms show False by simp
  qed
  with Cons show ?case by simp
qed

lemma not_contains_Cons:
  "\<not> str_contains sub (c # t) \<Longrightarrow> \<not> prefix sub (c # t) \<and> \<not> str_contains sub t"
  by (auto simp: str_contains_def split: if_splits option.splits)

lemma nomatch_inside_tag:
  "\<not> str_contains sub t \<Longrightarrow> t = [] \<or> last t \<notin> set sub \<Longrightarrow> nomatch sub t r"
proof (induction t)
  case Nil
  then show ?case by simp
next
  case (Cons c t)
  from Cons.prems(1) have np: "\<not> prefix sub (c # t)" and nc: "\<not> str_contains sub t"
    using not_contains_Cons by blast+
  have "\<not> prefix sub (c # t @ r)"
  proof
    assume "prefix sub (c # t @ r)"
    with np obtain x where "sub = (c # t) @ x"
      using prefix_crossing[of sub "c # t" r] by auto
    then have "last (c # t) \<in> set sub" by (metis last_in_set list.distinct(1) set_append UnI1)
    with Cons.prems(2) show False by simp
  qed
  moreover have "nomatch sub t r"
    using Cons.IH[OF nc] Cons.prems(2) by (cases t) auto
  ultimately show ?case by simp
qed

lemma nomatch_after_tag:
  assumes "tag_ok sub t" "nomatch sub u (sub @ r)"
  shows "nomatch sub (u @ t) r"
  using assms nomatch_swap_tail[of t sub u r] nomatch_inside_tag[of sub t r]
  by (simp add: tag_ok_def nomatch_append)

lemma replace_loop_alternate:
  assumes ok: "tag_ok sub p" "tag_ok sub q"
  shows "nomatch sub u v \<Longrightarrow>
         replace_loop sub p q k (u @ v) = Some (u @ alternate sub p q k v)"
proof (induction v arbitrary: u k rule: length_induct)
  case (1 v)
  from ok have ne: "sub \<noteq> []" by (simp add: tag_ok_def)
  show ?case
  proof (cases v)
    case Nil
    with 1 ne have "find_first sub (u @ v) = None"
      using find_first_nomatch[of sub u "[]"] by simp
    then show ?thesis using Nil
      by (subst replace_loop.simps) (simp add: str_contains_def)
  next
    case (Cons x xs)
    show ?thesis
    proof (cases "prefix sub v")
      case True
      define r where "r = drop (length sub) v"
      define t where "t = (if k mod 2 = 0 then p else q)"
      from True have v: "v = sub @ r" by (auto simp: r_def prefix_def)
      have ff: "find_first sub (u @ v) = Some (u, r)"
        using 1(2) True Cons ne by (simp add: find_first_nomatch r_def)
      have tok: "tag_ok sub t" using ok by (simp add: t_def)
      have nm: "nomatch sub (u @ t) r" using nomatch_after_tag[OF tok] 1(2) v by simp
      have len: "length r < length v" using ne v by simp
      have "replace_loop sub p q k (u @ v) = replace_loop sub p q (k + 1) ((u @ t) @ r)"
        by (subst replace_loop.simps) (simp add: str_contains_def replace_first_def ff t_def)
      also have "\<dots> = Some ((u @ t) @ alternate sub p q (k + 1) r)"
        using 1(1) len nm by blast
      also have "\<dots> = Some (u @ alternate sub p q k v)"
        using True Cons ne by (auto simp: r_def t_def)
      finally show ?thesis .
    next
      case False
      with 1(2) Cons have nm: "nomatch sub (u @ [x]) xs" by (simp add: nomatch_append)
      have "replace_loop sub p q k ((u @ [x]) @ xs) = Some ((u @ [x]) @ alternate sub p q k xs)"
        using 1(1)[rule_format, of xs "u @ [x]" k] nm Cons by simp
      then show ?thesis using False Cons by simp
    qed
  qed
qed

lemma alternate_absent: "\<not> str_contains sub s \<Longrightarrow> alternate sub p q k s = s"
proof (induction s)
  case Nil
  then show ?case by simp
next
  case (Cons c s)
  then show ?case using not_contains_Cons[of sub c s] by auto
qed

lemma replaceStartEnd_alternate:
  assumes "tag_ok sub p" "tag_ok sub q"
  shows "replaceStartEnd s sub p q =
         Some (if even (str_count sub s) then alternate sub p q 0 s else s)"
  using replace_loop_alternate[OF assms, of "[]" s 0] alternate_absent[of sub s p q 0]
  by (auto simp: replaceStartEnd_def)

lemma tags_ok:
  "tag_ok boldNotation startBoldHtml" "tag_ok boldNotation endBoldHtml"
  "tag_ok obliqueNotation startOblique" "tag_ok obliqueNotation endOblique"
  "tag_ok greenNotation startGreen" "tag_ok greenNotation endGreen"
  "tag_ok redNotation startRed" "tag_ok redNotation endRed"
  by (simp_all add: tag_ok_def str_contains_def boldNotation_def startBoldHtml_def endBoldHtml_def
      obliqueNotation_def startOblique_def endOblique_def greenNotation_def startGreen_def
      endGreen_def redNotation_def startRed_def endRed_def)

text \<open>What one step of \<open>ValueReplacer.replace\<close> computes, and the four steps in their
  order.\<close>

definition balance :: "string \<Rightarrow> string \<Rightarrow> string \<Rightarrow> string \<Rightarrow> string" where
  "balance tok opening closing s =
     (if even (str_count tok s) then alternate tok opening closing 0 s else s)"

definition markup :: "string \<Rightarrow> string" where
  "markup s =
     balance redNotation startRed endRed
       (balance greenNotation startGreen endGreen
          (balance obliqueNotation startOblique endOblique
             (balance boldNotation startBoldHtml endBoldHtml
                (str_replace [CHR 0x0A] ''<br />'' s))))"

lemma replace_markup: "replace s = Some (markup s)"
  by (simp add: replace_def markup_def balance_def replaceStartEnd_alternate tags_ok)

text \<open>
  C2, as the code has it. \<open>ValueReplacer.replace\<close> returns for every string, and its
  result is built in steps: every newline becomes \<open><br />\<close>; then bold, oblique,
  green and red are handled in this order, each on the output of the step before. In
  each step, when the token occurs an even number of times (as \<open>str.count\<close> counts) in
  the string that step receives, its occurrences are replaced from left to right by the
  opening tag, the closing tag, the opening tag, and so on; when it occurs an odd number
  of times, that string is passed on as it is. The same holds of \<open>replaceStartEnd\<close>
  called alone with one of the four notations on any string.
\<close>

theorem notation_balance_rule:
  "replace s =
     Some (let s0 = str_replace [CHR 0x0A] ''<br />'' s;
               s1 = (if even (str_count boldNotation s0)
                     then alternate boldNotation startBoldHtml endBoldHtml 0 s0 else s0);
               s2 = (if even (str_count obliqueNotation s1)
                     then alternate obliqueNotation startOblique endOblique 0 s1 else s1);
               s3 = (if even (str_count greenNotation s2)
                     then alternate greenNotation startGreen endGreen 0 s2 else s2)
           in if even (str_count redNotation s3)
              then alternate redNotation startRed endRed 0 s3 else s3) \<and>
   replaceStartEnd t boldNotation startBoldHtml endBoldHtml =
     Some (if even (str_count boldNotation t)
           then alternate boldNotation startBoldHtml endBoldHtml 0 t else t) \<and>
   replaceStartEnd t obliqueNotation startOblique endOblique =
     Some (if even (str_count obliqueNotation t)
           then alternate obliqueNotation startOblique endOblique 0 t else t) \<and>
   replaceStartEnd t greenNotation startGreen endGreen =
     Some (if even (str_count greenNotation t)
           then alternate greenNotation startGreen endGreen 0 t else t) \<and>
   replaceStartEnd t redNotation startRed endRed =
     Some (if even (str_count redNotation t)
           then alternate redNotation startRed endRed 0 t else t)"
  by (simp add: replace_markup markup_def balance_def Let_def replaceStartEnd_alternate tags_ok)

text \<open>The examples of the specification, a balanced pair and a stray token, and a
  string with two notations.\<close>

theorem notation_balance_rule_witness:
  "replace ''**bold**'' = Some ''<strong>bold</strong>'' \<and>
   replace ''a ** b'' = Some ''a ** b'' \<and>
   replace ''__x__ and _red_y_red_'' =
     Some (startOblique @ ''x'' @ endOblique @ '' and '' @ startRed @ ''y'' @ endRed)"
  using notation_balance_rule[THEN conjunct1, of "''**bold**''"]
    notation_balance_rule[THEN conjunct1, of "''a ** b''"]
    notation_balance_rule[THEN conjunct1, of "''__x__ and _red_y_red_''"]
  by (simp add: Let_def boldNotation_def startBoldHtml_def endBoldHtml_def obliqueNotation_def
      greenNotation_def redNotation_def startOblique_def endOblique_def startRed_def endRed_def)

text \<open>
  C2 as claimed, counting the occurrences in the string the transformer is given, fails:
  here the green token occurs twice, but the oblique step, which runs first, consumes an
  underscore of each end; the green step then finds the token once and leaves it, and no
  green tag is written.
\<close>

theorem green_inside_oblique_counterexample:
  "str_count greenNotation ''___green_x_green___'' = 2 \<and>
   replace ''___green_x_green___'' =
     Some (startOblique @ ''_green_x_green'' @ endOblique @ ''_'') \<and>
   \<not> str_contains startGreen (startOblique @ ''_green_x_green'' @ endOblique @ ''_'') \<and>
   str_contains greenNotation (startOblique @ ''_green_x_green'' @ endOblique @ ''_'')"
  by code_simp

section \<open>The store: adding, loading and saving\<close>

text \<open>
  The value \<open>addTranslation\<close> stores for a string \<open>v\<close>, read off the specification: the
  placeholder is rewritten first; the notation transformer runs unless \<open>keepMarkdown\<close>;
  the result is marked for folded rendering when it has a newline or more than 76
  characters.
\<close>

definition fold_scalar :: "string \<Rightarrow> yvalue" where
  "fold_scalar s = (if CHR 0x0A \<in> set s \<or> length s > 76 then Folded s else Plain s)"

definition nickname :: "string \<Rightarrow> string" where
  "nickname v = str_replace ''[nom]'' ''{{nickname}}'' v"

definition stored_value :: "bool \<Rightarrow> string \<Rightarrow> yvalue" where
  "stored_value keepMarkdown v =
     fold_scalar (if keepMarkdown then nickname v else markup (nickname v))"

lemma stringToYaml_Plain: "stringToYaml (Plain s) = Ok (fold_scalar s)"
  by (simp add: fold_scalar_def)

lemma text_of_fold_scalar: "text_of (fold_scalar s) = s"
  by (simp add: fold_scalar_def)

lemma ns_addTranslation_str:
  "ns_addTranslation path (CStr v) ow keep self =
     (if \<not> ow \<and> map_of (data self) path \<noteq> None then Ok self
      else Ok (self\<lparr>data := AList.update path (stored_value keep v) (data self), modified := True\<rparr>))"
  by (simp add: ns_addTranslation_def replace_markup stringToYaml_Plain stored_value_def nickname_def Let_def
      del: stringToYaml.simps)

lemma ns_addTranslation_gated:
  "\<not> ow \<Longrightarrow> map_of (data self) path \<noteq> None \<Longrightarrow> ns_addTranslation path val ow keep self = Ok self"
  by (simp add: ns_addTranslation_def)

lemma map_of_update_same: "map_of (AList.update k v al) k = Some v"
  by (simp add: update_conv')

text \<open>A replacement by a tag that cannot make a new occurrence leaves none behind.\<close>

lemma prefix_str_replace:
  assumes "old \<noteq> []" "new \<noteq> []"
  shows "prefix x (str_replace old new s) \<Longrightarrow> hd new \<notin> set x \<Longrightarrow> prefix x s"
proof (induction s arbitrary: x rule: length_induct)
  case (1 s)
  show ?case
  proof (cases s)
    case Nil
    with 1 assms show ?thesis by simp
  next
    case (Cons d ds)
    show ?thesis
    proof (cases "prefix old s")
      case True
      with Cons assms have "str_replace old new s = new @ str_replace old new (drop (length old) s)"
        by simp
      with 1(2) have "prefix x (new @ str_replace old new (drop (length old) s))" by simp
      with 1(3) assms have "x = []" by (cases x; cases new) auto
      then show ?thesis by simp
    next
      case False
      with Cons assms have eq: "str_replace old new s = d # str_replace old new ds" by simp
      show ?thesis
      proof (cases x)
        case Nil
        then show ?thesis by simp
      next
        case (Cons y ys)
        with 1(2) eq have "y = d" "prefix ys (str_replace old new ds)" by auto
        moreover have "hd new \<notin> set ys" using 1(3) Cons by simp
        ultimately have "prefix ys ds" using 1(1) \<open>s = d # ds\<close> by simp
        with \<open>y = d\<close> Cons \<open>s = d # ds\<close> show ?thesis by simp
      qed
    qed
  qed
qed

lemma nomatch_str_replace:
  assumes ok: "tag_ok old new"
  shows "nomatch old (str_replace old new s) []"
proof (induction s rule: length_induct)
  case (1 s)
  from ok have ne: "old \<noteq> []" "new \<noteq> []" and hd: "hd new \<notin> set old"
    and inner: "nomatch old new r" for r
    using nomatch_inside_tag[of old new r] by (auto simp: tag_ok_def)
  show ?case
  proof (cases s)
    case Nil
    with ne show ?thesis by simp
  next
    case (Cons d ds)
    show ?thesis
    proof (cases "prefix old s")
      case True
      have "length (drop (length old) s) < length s" using ne Cons by simp
      with 1 have "nomatch old (str_replace old new (drop (length old) s)) []" by blast
      with True Cons ne inner show ?thesis by (simp add: nomatch_append)
    next
      case False
      with Cons ne have eq: "str_replace old new s = d # str_replace old new ds" by simp
      have ih: "nomatch old (str_replace old new ds) []" using 1 Cons by simp
      have "\<not> prefix old (d # str_replace old new ds)"
      proof
        assume p: "prefix old (d # str_replace old new ds)"
        then obtain ys where o: "old = d # ys" "prefix ys (str_replace old new ds)"
          using ne by (cases old) auto
        with hd have "hd new \<notin> set ys" by auto
        with o have "prefix ys ds" using prefix_str_replace[OF ne] by blast
        with o Cons False show False by simp
      qed
      with ih eq show ?thesis by simp
    qed
  qed
qed

lemma nomatch_not_contains: "sub \<noteq> [] \<Longrightarrow> nomatch sub s [] \<Longrightarrow> \<not> str_contains sub s"
  using find_first_nomatch[of sub s "[]"] by (simp add: str_contains_def)

lemma nickname_clean: "\<not> str_contains ''[nom]'' (nickname v)"
proof -
  have "tag_ok ''[nom]'' ''{{nickname}}''" by (simp add: tag_ok_def str_contains_def)
  then show ?thesis
    unfolding nickname_def using nomatch_str_replace nomatch_not_contains by (simp add: tag_ok_def)
qed

text \<open>
  C3. For every store, path and string value: when the path is already in the mapping
  and \<open>overwrite\<close> is false, \<open>addTranslation\<close> returns the store as it was, value and
  dirty bit unchanged, whatever the value passed; otherwise it stores the transformed
  value under the path and sets the dirty bit.
\<close>

theorem add_overwrite_gating:
  "(if \<not> ow \<and> map_of (data self) path \<noteq> None
    then ns_addTranslation path val ow keep self = Ok self
    else ns_addTranslation path (CStr v) ow keep self =
           Ok (self\<lparr>data := AList.update path (stored_value keep v) (data self),
                     modified := True\<rparr>) \<and>
         map_of (AList.update path (stored_value keep v) (data self)) path =
           Some (stored_value keep v))"
  by (simp add: ns_addTranslation_str ns_addTranslation_gated map_of_update_same)

text \<open>The example of the specification: \<open>a.b\<close> holds \<open>old\<close>; adding \<open>new\<close> leaves it
  with \<open>overwrite = False\<close> and replaces it with \<open>overwrite = True\<close>.\<close>

theorem add_overwrite_gating_witness:
  "ns_addTranslation (CStr ''a.b'') (CStr ''new'') False False
      \<lparr>modified = False, data = [(CStr ''a.b'', Plain ''old'')], ns_file = ''f''\<rparr>
     = Ok \<lparr>modified = False, data = [(CStr ''a.b'', Plain ''old'')], ns_file = ''f''\<rparr>
   \<and> ns_addTranslation (CStr ''a.b'') (CStr ''new'') True False
      \<lparr>modified = False, data = [(CStr ''a.b'', Plain ''old'')], ns_file = ''f''\<rparr>
     = Ok \<lparr>modified = True, data = [(CStr ''a.b'', stored_value False ''new'')],
           ns_file = ''f''\<rparr>
   \<and> stored_value False ''new'' = Plain ''new''"
  using add_overwrite_gating[of False
      "\<lparr>modified = False, data = [(CStr ''a.b'', Plain ''old'')], ns_file = ''f''\<rparr>"
      "CStr ''a.b''" "CStr ''new''" False "''new''"]
    add_overwrite_gating[of True
      "\<lparr>modified = False, data = [(CStr ''a.b'', Plain ''old'')], ns_file = ''f''\<rparr>"
      "CStr ''a.b''" "CStr ''new''" False "''new''"]
  by (simp add: stored_value_def nickname_def markup_def balance_def fold_scalar_def
      boldNotation_def obliqueNotation_def greenNotation_def redNotation_def)

text \<open>
  C7. For every string value that is stored (the path is new, or \<open>overwrite\<close> is set):
  \<open>addTranslation\<close> returns, and the text stored under the path is the value with every
  \<open>[nom]\<close> rewritten to \<open>{{nickname}}\<close>, passed through the notation transformer only
  when \<open>keepMarkdown\<close> is false; the rewritten text holds no \<open>[nom]\<close> any more.
\<close>

theorem placeholder_rewrite:
  assumes "ow \<or> map_of (data self) path = None"
  shows "\<exists>self'. ns_addTranslation path (CStr v) ow keep self = Ok self' \<and>
           map_of (data self') path =
             Some (fold_scalar (if keep then nickname v else markup (nickname v))) \<and>
           nickname v = str_replace ''[nom]'' ''{{nickname}}'' v \<and>
           \<not> str_contains ''[nom]'' (nickname v)"
  using assms
  by (auto simp: ns_addTranslation_str map_of_update_same stored_value_def nickname_clean
      nickname_def[symmetric])

theorem placeholder_rewrite_witness:
  "\<exists>self'. ns_addTranslation (CStr ''q'') (CStr ''Bonjour [nom] **x**'') False True
               \<lparr>modified = False, data = [], ns_file = ''f''\<rparr> = Ok self' \<and>
           map_of (data self') (CStr ''q'') = Some (Plain ''Bonjour {{nickname}} **x**'')"
  using placeholder_rewrite[of False "\<lparr>modified = False, data = [], ns_file = ''f''\<rparr>"
      "CStr ''q''" "''Bonjour [nom] **x**''" True]
  by (auto simp: nickname_def fold_scalar_def)

text \<open>
  C6. The dirty bit: it is false in a new store; a load that succeeds leaves it, and the
  world, as they were; \<open>addTranslation\<close>, when it returns, has either been stopped by
  the gate and left the store as it was, or has set the bit; \<open>save\<close> on a store whose
  bit is false returns without touching the world. Hence a store that is loaded and
  never added to is saved without any write.
\<close>

theorem dirty_bit_discipline:
  "modified (TranslationLangNs_init f) = False \<and>
   (ns_loadCurrentTranslations self w = (Ok self', w') \<longrightarrow>
      modified self' = modified self \<and> w' = w) \<and>
   (ns_addTranslation path val ow keep self = Ok self'' \<longrightarrow>
      (if \<not> ow \<and> map_of (data self) path \<noteq> None then self'' = self else modified self'')) \<and>
   (\<not> modified self \<longrightarrow> ns_save self w = (Ok (), w)) \<and>
   (ns_loadCurrentTranslations (TranslationLangNs_init f) w = (Ok loaded, w') \<longrightarrow>
      ns_save loaded w' = (Ok (), w))"
proof -
  have load: "modified s' = modified s \<and> v' = v"
    if "ns_loadCurrentTranslations s v = (Ok s', v')" for s s' v v'
    using that
    by (auto simp: ns_loadCurrentTranslations_def split: option.splits document.splits result.splits)
  have add: "(if \<not> ow \<and> map_of (data self) path \<noteq> None then self'' = self else modified self'')"
    if "ns_addTranslation path val ow keep self = Ok self''"
    using that
    by (auto simp: ns_addTranslation_def Let_def split: cell.splits option.splits result.splits if_splits)
  have save: "ns_save s v = (Ok (), v)" if "\<not> modified s" for s v
    using that by (simp add: ns_save_def)
  have init: "modified (TranslationLangNs_init f) = False"
    by (simp add: TranslationLangNs_init_def)
  show ?thesis
    using load[of self w self' w'] load[of "TranslationLangNs_init f" w loaded w'] add
      save[of self w] save[of loaded w'] init
    by auto
qed

text \<open>A store is loaded from a file written by hand and saved: nothing changes.\<close>

definition example_disk :: filesystem where
  "example_disk = \<lparr>dirs = [''out'', ''out/fr''],
            files = [(''out/fr/home.yml'',
                      \<lparr>leading_text = [], document = Mapping [(CStr ''title'', Plain ''Accueil'')]\<rparr>)]\<rparr>"

theorem dirty_bit_discipline_witness:
  "ns_loadCurrentTranslations (TranslationLangNs_init ''out/fr/home.yml'')
      \<lparr>disk = example_disk, stdout = []\<rparr>
     = (Ok \<lparr>modified = False, data = [(CStr ''title'', Plain ''Accueil'')],
             ns_file = ''out/fr/home.yml''\<rparr>,
        \<lparr>disk = example_disk, stdout = []\<rparr>) \<and>
   ns_save \<lparr>modified = False, data = [(CStr ''title'', Plain ''Accueil'')],
            ns_file = ''out/fr/home.yml''\<rparr> \<lparr>disk = example_disk, stdout = []\<rparr>
     = (Ok (), \<lparr>disk = example_disk, stdout = []\<rparr>)"
proof -
  have l: "ns_loadCurrentTranslations (TranslationLangNs_init ''out/fr/home.yml'')
      \<lparr>disk = example_disk, stdout = []\<rparr>
     = (Ok \<lparr>modified = False, data = [(CStr ''title'', Plain ''Accueil'')],
             ns_file = ''out/fr/home.yml''\<rparr>,
        \<lparr>disk = example_disk, stdout = []\<rparr>)"
    by (simp add: ns_loadCurrentTranslations_def TranslationLangNs_init_def example_disk_def)
  with dirty_bit_discipline[of "''out/fr/home.yml''" _ "\<lparr>disk = example_disk, stdout = []\<rparr>" _ _ _ _ _ _ _
      "\<lparr>modified = False, data = [(CStr ''title'', Plain ''Accueil'')], ns_file = ''out/fr/home.yml''\<rparr>"]
  show ?thesis by simp
qed

text \<open>
  C9, as the code has it. \<open>save\<close> on a dirty store opens the file for writing. When the
  directory of the path exists, the file then holds the three comment lines and the
  mapping in its order, no other file changes, no directory is created and the path is
  printed. When the directory does not exist, \<open>open\<close> raises \<open>FileNotFoundError\<close> and
  the world is as before: the script has no call that creates a directory.
\<close>

theorem save_writes_header_and_mapping:
  assumes "modified self"
  shows "if can_open_for_writing (disk w) (ns_file self)
         then \<exists>w'. ns_save self w = (Ok (), w') \<and>
                map_of (files (disk w')) (ns_file self) =
                  Some \<lparr>leading_text = header, document = Mapping (data self)\<rparr> \<and>
                (\<forall>p. p \<noteq> ns_file self \<longrightarrow> map_of (files (disk w')) p = map_of (files (disk w)) p) \<and>
                dirs (disk w') = dirs (disk w) \<and>
                stdout w' = stdout w @ [GenerateSuccessfully (slashes (ns_file self))]
         else ns_save self w = (Raised (FileNotFoundError (ns_file self)), w)"
  using assms by (simp add: ns_save_def write_file_def print_def update_conv')

text \<open>C9 as claimed fails: a dirty store under a language directory that does not exist
  yet is not saved, and the directory is not created.\<close>

theorem save_missing_directory_counterexample:
  "ns_save \<lparr>modified = True, data = [(CStr ''title'', Plain ''Accueil'')],
            ns_file = ''out/fr/home.yml''\<rparr>
      \<lparr>disk = \<lparr>dirs = [''out''], files = []\<rparr>, stdout = []\<rparr>
     = (Raised (FileNotFoundError ''out/fr/home.yml''),
        \<lparr>disk = \<lparr>dirs = [''out''], files = []\<rparr>, stdout = []\<rparr>)"
  by (simp add: ns_save_def can_open_for_writing_def dirname_def is_sep_def)

theorem save_writes_header_and_mapping_witness:
  "\<exists>w'. ns_save \<lparr>modified = True, data = [(CStr ''title'', Plain ''Accueil'')],
            ns_file = ''out/fr/home.yml''\<rparr>
      \<lparr>disk = \<lparr>dirs = [''out'', ''out/fr''], files = []\<rparr>, stdout = []\<rparr> = (Ok (), w') \<and>
      map_of (files (disk w')) ''out/fr/home.yml'' =
        Some \<lparr>leading_text = header,
              document = Mapping [(CStr ''title'', Plain ''Accueil'')]\<rparr>"
  using save_writes_header_and_mapping[of
      "\<lparr>modified = True, data = [(CStr ''title'', Plain ''Accueil'')], ns_file = ''out/fr/home.yml''\<rparr>"
      "\<lparr>disk = \<lparr>dirs = [''out'', ''out/fr''], files = []\<rparr>, stdout = []\<rparr>"]
  by (auto simp: can_open_for_writing_def dirname_def is_sep_def)

section \<open>The dictionary of the Labels sheet\<close>

text \<open>The value a row has under \<open>key\<close>, and the last row of the sheet, in its order,
  that has a given value there.\<close>

definition key_of :: "cell list \<Rightarrow> cell list \<Rightarrow> cell option" where
  "key_of headers row = map_of (dict_of (zip headers row)) (CStr ''key'')"

definition last_row_with_key :: "cell list \<Rightarrow> sheet \<Rightarrow> cell \<Rightarrow> cell list option" where
  "last_row_with_key headers rows k = find (\<lambda>r. key_of headers r = Some k) (rev rows)"

lemma map_of_foldl_update:
  "map_of (foldl (\<lambda>d (k, v). AList.update k v d) d ps) k =
     (case map_of (rev ps) k of None \<Rightarrow> map_of d k | Some v \<Rightarrow> Some v)"
proof (induction ps arbitrary: d)
  case Nil
  then show ?case by simp
next
  case (Cons p ps)
  obtain a b where p: "p = (a, b)" by (cases p)
  show ?case
    by (simp add: Cons.IH p update_conv' map_add_def split: option.splits)
qed

lemma map_of_dict_of: "map_of (dict_of ps) = map_of (rev ps)"
  by (rule ext) (simp add: dict_of_def map_of_foldl_update split: option.splits)

lemma key_of_present:
  assumes "CStr ''key'' \<in> set headers" "length headers \<le> length row"
  shows "key_of headers row \<noteq> None"
proof -
  have "fst ` set (rev (zip headers row)) = set headers"
    using assms(2) by (simp add: map_fst_zip_take flip: set_map)
  then show ?thesis using assms(1)
    unfolding key_of_def map_of_dict_of by (metis map_of_eq_None_iff)
qed

lemma find_append_alt:
  "find P (xs @ ys) = (case find P xs of None \<Rightarrow> find P ys | Some x \<Rightarrow> Some x)"
  by (induction xs) auto

lemma locale_rows_lookup:
  assumes "CStr ''key'' \<in> set headers"
  shows "list_all (\<lambda>r. length headers \<le> length r) rows \<Longrightarrow>
    \<exists>d'. locale_rows headers rows d = Ok d' \<and>
      (\<forall>k. map_of d' k =
         (case last_row_with_key headers rows k of
            None \<Rightarrow> map_of d k
          | Some r \<Rightarrow> Some (dict_of (zip headers r))))"
proof (induction rows arbitrary: d)
  case Nil
  then show ?case by (simp add: last_row_with_key_def)
next
  case (Cons row rows)
  from Cons.prems have len: "length headers \<le> length row"
    and rest: "list_all (\<lambda>r. length headers \<le> length r) rows" by simp_all
  from key_of_present[OF assms len] obtain k0 where k0: "key_of headers row = Some k0" by auto
  let ?d1 = "AList.update k0 (dict_of (zip headers row)) d"
  from Cons.IH[OF rest, of ?d1] obtain d' where
    d': "locale_rows headers rows ?d1 = Ok d'"
    "\<And>k. map_of d' k = (case last_row_with_key headers rows k of
            None \<Rightarrow> map_of ?d1 k | Some r \<Rightarrow> Some (dict_of (zip headers r)))"
    by blast
  have "locale_rows headers (row # rows) d = Ok d'"
    using k0 d'(1) by (simp add: key_of_def)
  moreover have "map_of d' k =
         (case last_row_with_key headers (row # rows) k of
            None \<Rightarrow> map_of d k
          | Some r \<Rightarrow> Some (dict_of (zip headers r)))" for k
    using d'(2)[of k] k0
    by (auto simp: last_row_with_key_def find_append_alt update_conv' split: option.splits)
  ultimately show ?case by blast
qed

text \<open>
  C10. For a Labels sheet with a \<open>key\<close> header and at least one row below the header,
  every row having a cell under each header: the helper returns, prints nothing, and its
  dictionary maps a key to the row dictionary of the last row of the sheet that carries
  the key, and to nothing when no row carries it. Rows above that last one with the
  same key are not in the dictionary, which is all the extraction reads of the sheet.
\<close>

theorem duplicate_keys_last_row_wins:
  assumes "excel_file_path self = Some wb"
    and "map_of wb ''Labels'' = Some (headers # rows)"
    and "rows \<noteq> []"
    and "CStr ''key'' \<in> set headers"
    and "list_all (\<lambda>r. length headers \<le> length r) rows"
  shows "\<exists>d. getTranslationsFromLocaleSheet self w = (Ok d, w) \<and>
           (\<forall>k. map_of d k =
              (case last_row_with_key headers rows k of
                 None \<Rightarrow> None
               | Some r \<Rightarrow> Some (dict_of (zip headers r))))"
proof -
  from locale_rows_lookup[OF assms(4,5), of "[]"] obtain d where
    d: "locale_rows headers rows [] = Ok d"
    "\<forall>k. map_of d k = (case last_row_with_key headers rows k of
            None \<Rightarrow> map_of [] k | Some r \<Rightarrow> Some (dict_of (zip headers r)))"
    by blast
  have "locale_sheet (Some wb) = Ok d"
    using assms(2,3,4) d(1)
    by (cases rows) (simp_all add: locale_sheet_def sheet_exists_def get_headers_def)
  then show ?thesis using d(2) assms(1)
    by (simp add: getTranslationsFromLocaleSheet_def split: option.splits)
qed

text \<open>Two rows carry the key \<open>q\<close>; the dictionary has the second.\<close>

definition labels_example :: workbook where
  "labels_example =
     [(''Labels'', [[CStr ''key'', CStr ''fr_label''],
                    [CStr ''q'', CStr ''premier''],
                    [CStr ''q'', CStr ''dernier'']])]"

theorem duplicate_keys_last_row_wins_witness:
  "\<exists>d. getTranslationsFromLocaleSheet
          (FillLocalesTranslations_init (Some labels_example) ''out'' False None)
          \<lparr>disk = \<lparr>dirs = [], files = []\<rparr>, stdout = []\<rparr>
        = (Ok d, \<lparr>disk = \<lparr>dirs = [], files = []\<rparr>, stdout = []\<rparr>) \<and>
       map_of d (CStr ''q'') = Some [(CStr ''key'', CStr ''q''), (CStr ''fr_label'', CStr ''dernier'')]"
proof -
  have a: "excel_file_path (FillLocalesTranslations_init (Some labels_example) ''out'' False None)
             = Some labels_example"
    by (simp add: FillLocalesTranslations_init_def)
  have b: "map_of labels_example ''Labels'' =
      Some ([CStr ''key'', CStr ''fr_label''] #
            [[CStr ''q'', CStr ''premier''], [CStr ''q'', CStr ''dernier'']])"
    by (simp add: labels_example_def)
  from duplicate_keys_last_row_wins[OF a b, of "\<lparr>disk = \<lparr>dirs = [], files = []\<rparr>, stdout = []\<rparr>"]
  obtain d where d: "getTranslationsFromLocaleSheet
          (FillLocalesTranslations_init (Some labels_example) ''out'' False None)
          \<lparr>disk = \<lparr>dirs = [], files = []\<rparr>, stdout = []\<rparr>
        = (Ok d, \<lparr>disk = \<lparr>dirs = [], files = []\<rparr>, stdout = []\<rparr>)"
     "\<forall>k. map_of d k =
              (case last_row_with_key [CStr ''key'', CStr ''fr_label'']
                     [[CStr ''q'', CStr ''premier''], [CStr ''q'', CStr ''dernier'']] k of
                 None \<Rightarrow> None
               | Some r \<Rightarrow> Some (dict_of (zip [CStr ''key'', CStr ''fr_label''] r)))"
    by auto
  have "map_of d (CStr ''q'') = Some [(CStr ''key'', CStr ''q''), (CStr ''fr_label'', CStr ''dernier'')]"
    using d(2) by (simp add: last_row_with_key_def key_of_def dict_of_def)
  with d(1) show ?thesis by blast
qed

section \<open>A Labels sheet without rows below its header\<close>

text \<open>The loop over the Widgets rows when every row takes the default strategy: French
  from the seventh cell, English from the eighth.\<close>

fun default_rows ::
  "sheet \<Rightarrow> FillLocalesTranslations \<Rightarrow> world \<Rightarrow> unit result \<times> FillLocalesTranslations \<times> world" where
  "default_rows [] self w = (Ok (), self, w)"
| "default_rows (row # rest) self w =
     (if length row < 8 then (Raised IndexError, self, w)
      else and_then
             (and_then (add_default ''fr'' (row ! 3) (row ! 5) (row ! 6) self w)
                (add_default ''en'' (row ! 3) (row ! 5) (row ! 7)))
             (default_rows rest))"

lemma widget_rows_empty_dictionary: "widget_rows [] rows = default_rows rows"
proof (induction rows)
  case Nil
  show ?case by (rule ext, rule ext) simp
next
  case (Cons row rows)
  show ?case by (rule ext, rule ext) (simp add: Let_def Cons.IH)
qed

text \<open>
  C5, as the code has it. When the Labels sheet has one row or none, the helper raises
  its "Not enough rows" exception inside its own \<open>try\<close>; the \<open>except\<close> clause of the
  same function prints it and returns the empty dictionary. The extraction goes on: with
  a Widgets sheet, it is the default strategy on every row, after that one line of
  output.
\<close>

theorem labels_not_enough_rows:
  assumes "excel_file_path self = Some wb"
    and "map_of wb ''Labels'' = Some sh"
    and "length sh \<le> 1"
  shows "getTranslationsFromLocaleSheet self w =
           (Ok [], print (ExceptionInGetLocalesSheet NotEnoughRows) w) \<and>
         (case map_of wb ''Widgets'' of
            None \<Rightarrow> True
          | Some ws \<Rightarrow>
              addTranslationsFromExcel self w =
                print_and_reraise ExceptionInAddTranslationsFromExcel
                  (default_rows (drop 1 ws) self
                     (print (ExceptionInGetLocalesSheet NotEnoughRows) w)))"
proof -
  have ls: "locale_sheet (Some wb) = Raised NotEnoughRows"
    using assms(2,3) by (simp add: locale_sheet_def sheet_exists_def)
  then have g: "getTranslationsFromLocaleSheet self w =
           (Ok [], print (ExceptionInGetLocalesSheet NotEnoughRows) w)"
    using assms(1) by (simp add: getTranslationsFromLocaleSheet_def)
  then show ?thesis using assms(1)
    by (simp add: addTranslationsFromExcel_def widget_rows_empty_dictionary split: option.splits)
qed

text \<open>A workbook whose Labels sheet has only its header, and an output folder with the
  two language directories.\<close>

definition hdr8 :: "cell list" where
  "hdr8 = [CStr ''questionName'', CStr ''inputType'', CStr ''active'', CStr ''section'',
           CStr ''group'', CStr ''path'', CStr ''fr'', CStr ''en'']"

definition header_only_workbook :: workbook where
  "header_only_workbook =
     [(''Widgets'', [hdr8, [CStr ''q'', CNone, CNone, CStr ''home'', CNone, CStr ''q.label'',
                            CStr ''Bonjour'', CNone]]),
      (''Labels'', [[CStr ''key'', CStr ''fr_label'']])]"

definition fresh_world :: world where
  "fresh_world = \<lparr>disk = \<lparr>dirs = [''out'', ''out/fr'', ''out/en''], files = []\<rparr>, stdout = []\<rparr>"

text \<open>C5 as claimed fails: on that workbook the run returns normally, having printed the
  helper's exception and written the French file from the Widgets row.\<close>

theorem labels_header_only_counterexample:
  "fst (generate_libelles (Some header_only_workbook) ''out'' False None fresh_world) = Ok () \<and>
   stdout (snd (snd (generate_libelles (Some header_only_workbook) ''out'' False None fresh_world)))
     = [ExceptionInGetLocalesSheet NotEnoughRows, GenerateSuccessfully ''out/fr/home.yml''] \<and>
   map_of (files (disk (snd (snd
       (generate_libelles (Some header_only_workbook) ''out'' False None fresh_world)))))
       ''out/fr/home.yml''
     = Some \<lparr>leading_text = header, document = Mapping [(CStr ''q.label'', Plain ''Bonjour'')]\<rparr>"
  by code_simp

theorem labels_not_enough_rows_witness:
  "getTranslationsFromLocaleSheet
     (FillLocalesTranslations_init (Some header_only_workbook) ''out'' False None) fresh_world
   = (Ok [], print (ExceptionInGetLocalesSheet NotEnoughRows) fresh_world)"
proof -
  have a: "excel_file_path (FillLocalesTranslations_init (Some header_only_workbook) ''out'' False None)
             = Some header_only_workbook"
    by (simp add: FillLocalesTranslations_init_def)
  have b: "map_of header_only_workbook ''Labels'' = Some [[CStr ''key'', CStr ''fr_label'']]"
    by (simp add: header_only_workbook_def)
  have c: "length [[CStr ''key'', CStr ''fr_label'']] \<le> 1" by simp
  from labels_not_enough_rows[OF a b c, of fresh_world] show ?thesis by simp
qed

section \<open>Which columns of a Labels row are translations\<close>

text \<open>A column is added only when the text before its first underscore has at most two
  characters, and that text is the language.\<close>

lemma column_translation_emits:
  "column_translation q (CStr k) val = Ok (Some (lang, tk)) \<Longrightarrow>
     length lang \<le> 2 \<and> lang = takeWhile (\<lambda>c. c \<noteq> CHR ''_'') k"
  by (auto simp: column_translation_def split_once_def Let_def split: if_splits option.splits cell.splits)

text \<open>
  C8, on the code. The test of the source is \<open>len(lngContext[0]) > 2\<close>, under a comment
  that says a language part that "does not have 2 characters" is not processed. A
  column whose language part has one character, or none, is added like one with two;
  only longer parts are passed over.
\<close>

theorem short_language_prefix_is_emitted:
  "column_translation (CStr ''q'') (CStr ''x_label'') (CStr ''Salut'')
     = Ok (Some (''x'', CStr ''q_label'')) \<and>
   column_translation (CStr ''q'') (CStr ''_label'') (CStr ''Salut'')
     = Ok (Some ([], CStr ''q_label'')) \<and>
   column_translation (CStr ''q'') (CStr ''fr_label'') (CStr ''Salut'')
     = Ok (Some (''fr'', CStr ''q_label'')) \<and>
   column_translation (CStr ''q'') (CStr ''fra_label'') (CStr ''Salut'') = Ok None"
  by code_simp

section \<open>Exceptions while a translation is merged\<close>

text \<open>The registry prints the language, section and path with the exception and raises
  it again; the locale strategy above it never raises.\<close>

lemma td_addTranslation_prints:
  "td_addTranslation lang sect path val ow keep td w = (Raised e, td', w') \<Longrightarrow>
     stdout w' = stdout w @ [ExceptionOccurredFor lang sect path e]"
  by (auto simp: td_addTranslation_def print_and_reraise_def print_def Let_def
      split: cell.splits result.splits)

lemma addTranslationsFromLocales_never_raises:
  "fst (addTranslationsFromLocales sect question_name row self w) \<noteq> Raised e"
  by (simp add: addTranslationsFromLocales_def Let_def split: prod.splits result.splits)

text \<open>Two workbooks with the number 2024 where a French text is expected: in the Labels
  row of the question, and in the Widgets row of a question without Labels row.\<close>

definition numeric_label_workbook :: workbook where
  "numeric_label_workbook =
     [(''Widgets'', [hdr8, [CStr ''q'', CNone, CNone, CStr ''home'', CNone, CStr ''q.label'',
                            CNone, CNone]]),
      (''Labels'', [[CStr ''key'', CStr ''fr_label'', CStr ''en_label''],
                    [CStr ''q'', CInt 2024, CStr ''Hello'']])]"

definition numeric_widget_workbook :: workbook where
  "numeric_widget_workbook =
     [(''Widgets'', [hdr8, [CStr ''q'', CNone, CNone, CStr ''home'', CNone, CStr ''q.label'',
                            CInt 2024, CStr ''Hello'']])]"

text \<open>
  C4, on the code. With the number in the Labels row, the registry prints the exception
  with its context and raises it again, but \<open>__addTranslationsFromLocales\<close> catches it,
  prints it and returns: the run ends normally, the English label of the same row is
  never added, and no file is written. With the number in the Widgets row, the default
  strategy lets the exception through and the run is aborted.
\<close>

theorem locale_merge_failure_is_swallowed:
  "fst (generate_libelles (Some numeric_label_workbook) ''out'' False None fresh_world) = Ok () \<and>
   stdout (snd (snd (generate_libelles (Some numeric_label_workbook) ''out'' False None fresh_world)))
     = [ExceptionOccurredFor ''fr'' (CStr ''home'') (CStr ''q_label'') AttributeError,
        ExceptionInAddTranslationsFromLocale AttributeError] \<and>
   files (disk (snd (snd
       (generate_libelles (Some numeric_label_workbook) ''out'' False None fresh_world)))) = [] \<and>
   fst (generate_libelles (Some numeric_widget_workbook) ''out'' False None fresh_world)
     = Raised AttributeError \<and>
   stdout (snd (snd (generate_libelles (Some numeric_widget_workbook) ''out'' False None fresh_world)))
     = [ExceptionInGetLocalesSheet InvalidSheet,
        ExceptionOccurredFor ''fr'' (CStr ''home'') (CStr ''q.label'') AttributeError,
        ExceptionInAddTranslationsFromExcel AttributeError,
        AnErrorOccurred AttributeError]"
  by code_simp

end
